theory Spec2Isabelle
  imports Main "HOL-Library.AList"
begin

section \<open>Data model of the offline sync manager\<close>

text \<open>
  The model follows the offline sync manager of Rhapsode function by function.  An
  \<open>async\<close> function is run to completion as one step: no other event handler is
  interleaved at an \<open>await\<close>.  Writes to \<open>localStorage\<close> are taken to succeed, and
  \<open>getCurrentUser()\<close> to resolve, to a user or to \<open>null\<close>.  A function returns
  (\<open>Return\<close>) or throws (\<open>Throw\<close>), in both cases with the state it has reached.
\<close>

type_synonym instant = nat
  \<comment> \<open>a reading of the clock: \<open>Date.now()\<close>, or the instant that the string
      \<open>new Date().toISOString()\<close> denotes\<close>

type_synonym user = string
  \<comment> \<open>the object returned by \<open>getCurrentUser()\<close>, identified by its \<open>id\<close>\<close>

record progress =
  stage :: nat
  stageRepetition :: nat
  lastPracticed :: "instant option"
  successfulReviews :: nat
  hintsUsed :: nat
  updatedAt :: "instant option"

record poem =
  poem_id :: string
  poem_title :: string
  poem_stage :: nat
  poem_stageRepetition :: nat
  poem_lastPracticed :: "instant option"
  poem_successfulReviews :: nat
  poem_hintsUsed :: nat

record quote =
  quote_id :: string
  quote_text :: string
  quote_poemId :: string

text \<open>
  The \<open>data\<close> of a queue item: a poem (\<open>save_poem\<close>), \<open>{poemId, progress}\<close>
  (\<open>save_progress\<close>), \<open>{poemId}\<close> (\<open>remove_poem\<close>), a quote (\<open>save_quote\<close>) or
  \<open>{quoteId}\<close> (\<open>delete_quote\<close>).  A property the object does not have reads as
  \<open>undefined\<close>, here \<open>None\<close>.
\<close>

datatype payload =
    PoemData poem
  | ProgressData string progress
  | PoemRef string
  | QuoteData quote
  | QuoteRef string

fun data_poemId :: "payload \<Rightarrow> string option" where
  "data_poemId (PoemData p) = None"
| "data_poemId (ProgressData pid pr) = Some pid"
| "data_poemId (PoemRef pid) = Some pid"
| "data_poemId (QuoteData q) = Some (quote_poemId q)"
| "data_poemId (QuoteRef qid) = None"

fun data_progress :: "payload \<Rightarrow> progress option" where
  "data_progress (ProgressData pid pr) = Some pr"
| "data_progress _ = None"

fun data_quoteId :: "payload \<Rightarrow> string option" where
  "data_quoteId (QuoteRef qid) = Some qid"
| "data_quoteId _ = None"

record qitem =
  item_id :: "instant \<times> string"
    \<comment> \<open>\<open>Date.now() + '_' + Math.random().toString(36).substr(2, 9)\<close>, kept as the pair\<close>
  action :: string
  data :: payload
  timestamp :: instant
  retries :: nat
    \<comment> \<open>a number, so that \<open>item.retries || 0\<close> is \<open>item.retries\<close>\<close>

datatype js_error = SyntaxError | RemoteError | ReferenceError | TypeError

text \<open>
  A string held by \<open>localStorage\<close>, seen through \<open>JSON.parse\<close>: either the
  serialisation of a value (what \<open>JSON.stringify\<close> wrote) or a string that
  \<open>JSON.parse\<close> rejects, the empty string among them.  Under the queue key a
  well-formed content is an array of items, under the progress key an object from
  poem ids to snapshots (kept in insertion order).
\<close>

datatype 'a stored = Serialized 'a | Unparsable string

fun JSON_parse :: "'a stored \<Rightarrow> js_error + 'a" where
  "JSON_parse (Serialized v) = Inr v"
| "JSON_parse (Unparsable s) = Inl SyntaxError"

text \<open>\<open>localStorage.getItem(KEY) || dflt\<close>: \<open>null\<close> and the empty string are falsy.\<close>

fun or_default :: "'a stored option \<Rightarrow> 'a \<Rightarrow> 'a stored" where
  "or_default None d = Serialized d"
| "or_default (Some (Unparsable [])) d = Serialized d"
| "or_default (Some t) d = t"

text \<open>The calls the manager makes on the remote store (\<open>supabase.js\<close>), with their arguments.\<close>

datatype remote_op =
    Call_saveUserPoem user payload
  | Call_removeUserPoem user "string option"
  | Call_saveProgress "string option" "progress option"
  | Call_saveUserQuote user payload
  | Call_deleteUserQuote user "string option"

datatype collaborator =
    F_getCurrentUser | F_saveUserPoem | F_removeUserPoem | F_saveProgress
  | F_saveUserQuote | F_deleteUserQuote

text \<open>
  What the global identifier \<open>showToast\<close> is bound to.  The sources at hand do not
  declare it, and it is read as \<open>showToast && showToast(...)\<close>, not through \<open>typeof\<close>.
\<close>

datatype global_binding = Undeclared | Bound_falsy | Bound_function | Bound_other

text \<open>
  The process state: the connectivity flag \<open>isOnline\<close>, the three entries of
  \<open>localStorage\<close> the manager uses, the trace of calls made on the remote store, the
  notifications shown, and the number of interactions with the environment so far.
\<close>

record world =
  isOnline :: bool
  sync_queue_store :: "qitem list stored option"
  offline_progress_store :: "(string \<times> progress) list stored option"
  last_sync_store :: "instant option"
  remote_calls :: "remote_op list"
  toasts :: "(string \<times> string) list"
  steps :: nat

text \<open>
  The environment answers the \<open>k\<close>-th interaction: which global functions exist
  (\<open>typeof f === 'function'\<close>), what \<open>showToast\<close> is bound to, whom \<open>getCurrentUser()\<close>
  resolves to, whether a call on the remote store succeeds or throws, what the clock and
  \<open>Math.random()\<close> return.
\<close>

record env =
  defined :: "collaborator \<Rightarrow> bool"
  showToast_binding :: global_binding
  user_at :: "nat \<Rightarrow> user option"
  remote_ok :: "nat \<Rightarrow> remote_op \<Rightarrow> bool"
  date_at :: "nat \<Rightarrow> instant"
  random_at :: "nat \<Rightarrow> string"

datatype 'a completion = Return 'a world | Throw js_error world

fun world_of :: "'a completion \<Rightarrow> world" where
  "world_of (Return v w) = w"
| "world_of (Throw x w) = w"

section \<open>Collaborators\<close>

definition tick :: "world \<Rightarrow> world" where
  "tick w = w\<lparr>steps := Suc (steps w)\<rparr>"

definition getCurrentUser :: "env \<Rightarrow> world \<Rightarrow> user option \<times> world" where
  "getCurrentUser e w = (user_at e (steps w), tick w)"

text \<open>A call on the remote store is recorded whether it succeeds or throws.\<close>

definition invoke_remote :: "env \<Rightarrow> remote_op \<Rightarrow> world \<Rightarrow> unit completion" where
  "invoke_remote e rop w =
     (let w' = (tick w)\<lparr>remote_calls := remote_calls w @ [rop]\<rparr>
      in if remote_ok e (steps w) rop then Return () w' else Throw RemoteError w')"

text \<open>
  Modelled from the spec: the function \<open>showToast\<close> is not part of the sources at hand.
  Where it exists, the notifier is best-effort: it shows the notification and returns.
\<close>

definition showToast :: "string \<Rightarrow> string \<Rightarrow> world \<Rightarrow> world" where
  "showToast title message w = w\<lparr>toasts := toasts w @ [(title, message)]\<rparr>"

text \<open>
  The statement \<open>showToast && showToast(title, message)\<close>: reading an undeclared
  identifier throws a \<open>ReferenceError\<close>, a falsy value ends the statement, a function is
  called, and calling any other truthy value throws a \<open>TypeError\<close>.
\<close>

definition showToast_if_any :: "env \<Rightarrow> string \<Rightarrow> string \<Rightarrow> world \<Rightarrow> unit completion" where
  "showToast_if_any e title message w =
     (case showToast_binding e of
        Undeclared \<Rightarrow> Throw ReferenceError w
      | Bound_falsy \<Rightarrow> Return () w
      | Bound_function \<Rightarrow> Return () (showToast title message w)
      | Bound_other \<Rightarrow> Throw TypeError w)"

section \<open>Sync queue management\<close>

definition getSyncQueue :: "world \<Rightarrow> qitem list" where
  "getSyncQueue w =
     (case JSON_parse (or_default (sync_queue_store w) []) of
        Inr queue \<Rightarrow> queue
      | Inl e \<Rightarrow> [])"

definition saveSyncQueue :: "qitem list \<Rightarrow> world \<Rightarrow> world" where
  "saveSyncQueue queue w = w\<lparr>sync_queue_store := Some (Serialized queue)\<rparr>"

definition addToSyncQueue :: "env \<Rightarrow> string \<Rightarrow> payload \<Rightarrow> world \<Rightarrow> world" where
  "addToSyncQueue e act dat w =
     (let queue = getSyncQueue w;
          now = date_at e (steps w);
          rnd = random_at e (steps w + 1);
          stamp = date_at e (steps w + 2);
          item = \<lparr>item_id = (now, rnd), action = act, data = dat,
                  timestamp = stamp, retries = 0\<rparr>
      in saveSyncQueue (queue @ [item]) (w\<lparr>steps := steps w + 3\<rparr>))"

definition removeFromSyncQueue :: "instant \<times> string \<Rightarrow> world \<Rightarrow> world" where
  "removeFromSyncQueue itemId w =
     saveSyncQueue (filter (\<lambda>item. item_id item \<noteq> itemId) (getSyncQueue w)) w"

section \<open>Offline data storage\<close>

text \<open>
  The parsed progress object has \<open>Object.prototype\<close> as its prototype.  The assignment
  \<open>obj[key] = value\<close> overwrites an own property in place and appends a new one, except
  that for the key \<open>__proto__\<close>, when it is not an own property, the assignment goes to
  the setter of the prototype: the object gets no own property, and
  \<open>JSON.stringify\<close>, which writes own properties only, writes what it would have written
  before.
\<close>

definition assign_property :: "string \<Rightarrow> 'v \<Rightarrow> (string \<times> 'v) list \<Rightarrow> (string \<times> 'v) list" where
  "assign_property key val obj =
     (if key = ''__proto__'' \<and> key \<notin> fst ` set obj then obj
      else AList.update key val obj)"

text \<open>
  The read \<open>obj[key]\<close> finds an own property first, then a property of
  \<open>Object.prototype\<close> (a function, or for \<open>__proto__\<close> the prototype itself: all truthy),
  and is \<open>undefined\<close> otherwise.
\<close>

definition Object_prototype_keys :: "string list" where
  "Object_prototype_keys =
     [''constructor'', ''__defineGetter__'', ''__defineSetter__'', ''hasOwnProperty'',
      ''__lookupGetter__'', ''__lookupSetter__'', ''isPrototypeOf'', ''propertyIsEnumerable'',
      ''toString'', ''valueOf'', ''__proto__'', ''toLocaleString'']"

datatype 'v property_value = Own_value 'v | Inherited_value string | Undefined_value

definition read_property :: "(string \<times> 'v) list \<Rightarrow> string \<Rightarrow> 'v property_value" where
  "read_property obj key =
     (case map_of obj key of
        Some v \<Rightarrow> Own_value v
      | None \<Rightarrow>
          if key \<in> set Object_prototype_keys then Inherited_value key else Undefined_value)"

definition saveProgressLocally :: "env \<Rightarrow> string \<Rightarrow> progress \<Rightarrow> world \<Rightarrow> unit completion" where
  "saveProgressLocally e poemId prog w =
     (case JSON_parse (or_default (offline_progress_store w) []) of
        Inl x \<Rightarrow> Throw x w
      | Inr allProgress \<Rightarrow>
          Return ()
            ((tick w)\<lparr>offline_progress_store :=
               Some (Serialized
                 (assign_property poemId
                    (prog\<lparr>updatedAt := Some (date_at e (steps w))\<rparr>) allProgress))\<rparr>))"

text \<open>
  \<open>allProgress[poemId] || null\<close>: a snapshot and an inherited property are truthy and
  are returned as they are; \<open>undefined\<close> becomes \<open>null\<close>, here \<open>None\<close>.
\<close>

definition getLocalProgress :: "string \<Rightarrow> world \<Rightarrow> progress property_value option completion" where
  "getLocalProgress poemId w =
     (case JSON_parse (or_default (offline_progress_store w) []) of
        Inl x \<Rightarrow> Throw x w
      | Inr allProgress \<Rightarrow>
          Return (case read_property allProgress poemId of
                    Undefined_value \<Rightarrow> None
                  | v \<Rightarrow> Some v) w)"

definition getAllLocalProgress :: "world \<Rightarrow> (string \<times> progress) list completion" where
  "getAllLocalProgress w =
     (case JSON_parse (or_default (offline_progress_store w) []) of
        Inl x \<Rightarrow> Throw x w
      | Inr allProgress \<Rightarrow> Return allProgress w)"

section \<open>Sync logic\<close>

definition processSyncItem :: "env \<Rightarrow> qitem \<Rightarrow> user \<Rightarrow> world \<Rightarrow> unit completion" where
  "processSyncItem e item usr w =
     (if action item = ''save_poem'' then
        (if defined e F_saveUserPoem
         then invoke_remote e (Call_saveUserPoem usr (data item)) w
         else Return () w)
      else if action item = ''remove_poem'' then
        (if defined e F_removeUserPoem
         then invoke_remote e (Call_removeUserPoem usr (data_poemId (data item))) w
         else Return () w)
      else if action item = ''save_progress'' then
        (if defined e F_saveProgress
         then invoke_remote e
                (Call_saveProgress (data_poemId (data item)) (data_progress (data item))) w
         else Return () w)
      else if action item = ''save_quote'' then
        (if defined e F_saveUserQuote
         then invoke_remote e (Call_saveUserQuote usr (data item)) w
         else Return () w)
      else if action item = ''delete_quote'' then
        (if defined e F_deleteUserQuote
         then invoke_remote e (Call_deleteUserQuote usr (data_quoteId (data item))) w
         else Return () w)
      else Return () w)"

text \<open>
  \<open>Object.keys\<close>: the keys that are array indices (canonical decimal strings below
  \<open>2^32 - 1\<close>) in ascending numeric order, then the other keys in insertion order.
\<close>

definition is_digit :: "char \<Rightarrow> bool" where
  "is_digit c = (48 \<le> (of_char c :: nat) \<and> (of_char c :: nat) \<le> 57)"

definition decimal :: "string \<Rightarrow> nat" where
  "decimal s = foldl (\<lambda>n c. 10 * n + (of_char c - 48)) 0 s"

definition is_array_index :: "string \<Rightarrow> bool" where
  "is_array_index s =
     (s \<noteq> [] \<and> list_all is_digit s \<and> (s = ''0'' \<or> hd s \<noteq> CHR ''0'')
      \<and> decimal s < 2 ^ 32 - 1)"

definition Object_keys :: "(string \<times> 'v) list \<Rightarrow> string list" where
  "Object_keys obj =
     (let ks = map fst obj
      in sort_key decimal (filter is_array_index ks) @ filter (\<lambda>k. \<not> is_array_index k) ks)"

text \<open>The loop of \<open>syncLocalProgressToCloud\<close>: a failed push is logged and the loop goes on.\<close>

fun push_each :: "env \<Rightarrow> (string \<times> progress) list \<Rightarrow> string list \<Rightarrow> world \<Rightarrow> world" where
  "push_each e localProgress [] w = w"
| "push_each e localProgress (poemId # poemIds) w =
     push_each e localProgress poemIds
       (if defined e F_saveProgress
        then world_of (invoke_remote e
               (Call_saveProgress (Some poemId) (map_of localProgress poemId)) w)
        else w)"

definition syncLocalProgressToCloud :: "env \<Rightarrow> user \<Rightarrow> world \<Rightarrow> unit completion" where
  "syncLocalProgressToCloud e usr w =
     (case getAllLocalProgress w of
        Throw x w' \<Rightarrow> Throw x w'
      | Return localProgress w' \<Rightarrow>
          (let poemIds = Object_keys localProgress
           in if length poemIds = 0 then Return () w'
              else Return () (push_each e localProgress poemIds w')))"

text \<open>
  The loop of \<open>syncPendingChanges\<close> over the snapshot of the queue.  On a failure the
  retry counter is incremented on the item of the snapshot; the snapshot is not
  written back.
\<close>

fun sync_each :: "env \<Rightarrow> user \<Rightarrow> qitem list \<Rightarrow> world \<Rightarrow> world" where
  "sync_each e usr [] w = w"
| "sync_each e usr (item # queue) w =
     sync_each e usr queue
       (case processSyncItem e item usr w of
          Return u w' \<Rightarrow> removeFromSyncQueue (item_id item) w'
        | Throw x w' \<Rightarrow>
            (let item' = item\<lparr>retries := retries item + 1\<rparr>
             in if retries item' \<ge> 3 then removeFromSyncQueue (item_id item') w' else w'))"

definition syncPendingChanges :: "env \<Rightarrow> world \<Rightarrow> unit completion" where
  "syncPendingChanges e w =
     (if \<not> isOnline w then Return () w
      else
        (case (if defined e F_getCurrentUser then getCurrentUser e w else (None, w)) of
           (None, w1) \<Rightarrow> Return () w1
         | (Some usr, w1) \<Rightarrow>
             (let queue = getSyncQueue w1
              in if length queue = 0 then Return () w1
                 else
                   (case syncLocalProgressToCloud e usr (sync_each e usr queue w1) of
                      Throw x w3 \<Rightarrow> Throw x w3
                    | Return u w3 \<Rightarrow>
                        Return ()
                          ((tick w3)\<lparr>last_sync_store := Some (date_at e (steps w3))\<rparr>)))))"

section \<open>Wrapped functions\<close>

definition saveUserPoemOffline :: "env \<Rightarrow> poem \<Rightarrow> world \<Rightarrow> unit completion" where
  "saveUserPoemOffline e p w =
     (case saveProgressLocally e (poem_id p)
             \<lparr>stage = poem_stage p, stageRepetition = poem_stageRepetition p,
              lastPracticed = poem_lastPracticed p,
              successfulReviews = poem_successfulReviews p,
              hintsUsed = poem_hintsUsed p, updatedAt = None\<rparr> w of
        Throw x w1 \<Rightarrow> Throw x w1
      | Return u w1 \<Rightarrow>
          (if isOnline w1 \<and> defined e F_getCurrentUser then
             (case getCurrentUser e w1 of
                (Some usr, w2) \<Rightarrow>
                  (if defined e F_saveUserPoem then
                     (case invoke_remote e (Call_saveUserPoem usr (PoemData p)) w2 of
                        Return u' w3 \<Rightarrow> Return () w3
                      | Throw x w3 \<Rightarrow>
                          Return () (addToSyncQueue e ''save_poem'' (PoemData p) w3))
                   else Return () (addToSyncQueue e ''save_poem'' (PoemData p) w2))
              | (None, w2) \<Rightarrow> Return () (addToSyncQueue e ''save_poem'' (PoemData p) w2))
           else Return () (addToSyncQueue e ''save_poem'' (PoemData p) w1)))"

definition saveProgressOffline :: "env \<Rightarrow> string \<Rightarrow> progress \<Rightarrow> world \<Rightarrow> unit completion" where
  "saveProgressOffline e poemId prog w =
     (case saveProgressLocally e poemId prog w of
        Throw x w1 \<Rightarrow> Throw x w1
      | Return u w1 \<Rightarrow>
          (if isOnline w1 \<and> defined e F_getCurrentUser then
             (case getCurrentUser e w1 of
                (Some usr, w2) \<Rightarrow>
                  (if defined e F_saveProgress then
                     (case invoke_remote e (Call_saveProgress (Some poemId) (Some prog)) w2 of
                        Return u' w3 \<Rightarrow> Return () w3
                      | Throw x w3 \<Rightarrow>
                          Return ()
                            (addToSyncQueue e ''save_progress'' (ProgressData poemId prog) w3))
                   else Return ()
                          (addToSyncQueue e ''save_progress'' (ProgressData poemId prog) w2))
              | (None, w2) \<Rightarrow>
                  Return () (addToSyncQueue e ''save_progress'' (ProgressData poemId prog) w2))
           else Return () (addToSyncQueue e ''save_progress'' (ProgressData poemId prog) w1)))"

definition isAppOnline :: "world \<Rightarrow> bool" where
  "isAppOnline w = isOnline w"

definition getLastSyncTime :: "world \<Rightarrow> instant option" where
  "getLastSyncTime w = last_sync_store w"

definition forceSyncNow :: "env \<Rightarrow> world \<Rightarrow> bool completion" where
  "forceSyncNow e w =
     (if \<not> isOnline w
      then
        (case showToast_if_any e ''Offline'' ''Cannot sync while offline'' w of
           Throw x w' \<Rightarrow> Throw x w'
         | Return u w' \<Rightarrow> Return False w')
      else
        (case syncPendingChanges e w of
           Throw x w' \<Rightarrow> Throw x w'
         | Return u w' \<Rightarrow> Return True w'))"

definition getPendingSyncCount :: "world \<Rightarrow> nat" where
  "getPendingSyncCount w = length (getSyncQueue w)"

section \<open>Derived notions used by the statements\<close>

text \<open>The Progress Mirror as the reads see it: \<open>None\<close> when \<open>getAllLocalProgress\<close> throws.\<close>

definition progress_mirror :: "world \<Rightarrow> (string \<times> progress) list option" where
  "progress_mirror w =
     (case getAllLocalProgress w of Return m w' \<Rightarrow> Some m | Throw x w' \<Rightarrow> None)"

text \<open>The function that the \<open>switch\<close> of \<open>processSyncItem\<close> calls for an action, if any.\<close>

definition handler_for :: "string \<Rightarrow> collaborator option" where
  "handler_for act =
     (if act = ''save_poem'' then Some F_saveUserPoem
      else if act = ''remove_poem'' then Some F_removeUserPoem
      else if act = ''save_progress'' then Some F_saveProgress
      else if act = ''save_quote'' then Some F_saveUserQuote
      else if act = ''delete_quote'' then Some F_deleteUserQuote
      else None)"

text \<open>\<open>n\<close> reconciliation passes in a row.\<close>

fun passes :: "nat \<Rightarrow> env \<Rightarrow> world \<Rightarrow> world" where
  "passes 0 e w = w"
| "passes (Suc n) e w = passes n e (world_of (syncPendingChanges e w))"

text \<open>A sequence of \<open>saveProgressOffline\<close> calls, each awaited before the next.\<close>

fun saveProgressOffline_all :: "env \<Rightarrow> (string \<times> progress) list \<Rightarrow> world \<Rightarrow> unit completion" where
  "saveProgressOffline_all e [] w = Return () w"
| "saveProgressOffline_all e ((poemId, prog) # calls) w =
     (case saveProgressOffline e poemId prog w of
        Throw x w' \<Rightarrow> Throw x w'
      | Return u w' \<Rightarrow> saveProgressOffline_all e calls w')"

section \<open>Sample inputs\<close>

definition sample_progress :: progress where
  "sample_progress = \<lparr>stage = 2, stageRepetition = 1, lastPracticed = None,
                       successfulReviews = 3, hintsUsed = 0, updatedAt = None\<rparr>"

definition sample_poem :: poem where
  "sample_poem = \<lparr>poem_id = ''poem-1'', poem_title = ''Ozymandias'', poem_stage = 2,
                   poem_stageRepetition = 1, poem_lastPracticed = None,
                   poem_successfulReviews = 3, poem_hintsUsed = 0\<rparr>"

definition env_ok :: env where
  "env_ok = \<lparr>defined = (\<lambda>f. True), showToast_binding = Bound_function,
             user_at = (\<lambda>k. Some ''u1''),
             remote_ok = (\<lambda>k rop. True), date_at = (\<lambda>k. 1000 + k),
             random_at = (\<lambda>k. ''r'')\<rparr>"

definition env_failing :: env where
  "env_failing = env_ok\<lparr>remote_ok := (\<lambda>k rop. False)\<rparr>"

definition env_anonymous :: env where
  "env_anonymous = env_ok\<lparr>user_at := (\<lambda>k. None)\<rparr>"

definition env_bare :: env where
  "env_bare = env_ok\<lparr>defined := (\<lambda>f. f = F_getCurrentUser)\<rparr>"

definition env_no_toast :: env where
  "env_no_toast = env_ok\<lparr>showToast_binding := Undeclared\<rparr>"

definition world0 :: world where
  "world0 = \<lparr>isOnline = False, sync_queue_store = None, offline_progress_store = None,
             last_sync_store = None, remote_calls = [], toasts = [], steps = 0\<rparr>"

definition corrupt_world :: world where
  "corrupt_world = world0\<lparr>sync_queue_store := Some (Unparsable ''{oops''),
                          offline_progress_store := Some (Unparsable ''{oops'')\<rparr>"

definition corrupt_mirror_world :: world where
  "corrupt_mirror_world = world0\<lparr>offline_progress_store := Some (Unparsable ''{oops'')\<rparr>"

definition stuck_item :: qitem where
  "stuck_item = \<lparr>item_id = (1000, ''r''), action = ''save_progress'',
                 data = ProgressData ''poem-1'' sample_progress, timestamp = 1000,
                 retries = 0\<rparr>"

definition stuck_world :: world where
  "stuck_world = world0\<lparr>isOnline := True, sync_queue_store := Some (Serialized [stuck_item])\<rparr>"

definition unknown_item :: qitem where
  "unknown_item = stuck_item\<lparr>action := ''rename_poem''\<rparr>"

definition unknown_world :: world where
  "unknown_world = world0\<lparr>isOnline := True, sync_queue_store := Some (Serialized [unknown_item])\<rparr>"

definition mirror_only_world :: world where
  "mirror_only_world =
     world0\<lparr>isOnline := True,
            offline_progress_store :=
              Some (Serialized [(''poem-1'', sample_progress\<lparr>updatedAt := Some 900\<rparr>)])\<rparr>"

definition pending_world :: world where
  "pending_world = mirror_only_world\<lparr>sync_queue_store := Some (Serialized [stuck_item])\<rparr>"

definition corrupt_pending_world :: world where
  "corrupt_pending_world = stuck_world\<lparr>offline_progress_store := Some (Unparsable ''{oops'')\<rparr>"

section \<open>Basic facts about the state\<close>

lemma tick_fields [simp]:
  "isOnline (tick w) = isOnline w"
  "sync_queue_store (tick w) = sync_queue_store w"
  "offline_progress_store (tick w) = offline_progress_store w"
  "last_sync_store (tick w) = last_sync_store w"
  "remote_calls (tick w) = remote_calls w"
  "toasts (tick w) = toasts w"
  "steps (tick w) = Suc (steps w)"
  by (simp_all add: tick_def)

lemma saveSyncQueue_fields [simp]:
  "isOnline (saveSyncQueue q w) = isOnline w"
  "sync_queue_store (saveSyncQueue q w) = Some (Serialized q)"
  "offline_progress_store (saveSyncQueue q w) = offline_progress_store w"
  "last_sync_store (saveSyncQueue q w) = last_sync_store w"
  "remote_calls (saveSyncQueue q w) = remote_calls w"
  "steps (saveSyncQueue q w) = steps w"
  by (simp_all add: saveSyncQueue_def)

lemma getSyncQueue_saveSyncQueue [simp]: "getSyncQueue (saveSyncQueue q w) = q"
  by (simp add: getSyncQueue_def)

lemma getSyncQueue_cong:
  "sync_queue_store w' = sync_queue_store w \<Longrightarrow> getSyncQueue w' = getSyncQueue w"
  by (simp add: getSyncQueue_def)

lemma removeFromSyncQueue_fields [simp]:
  "isOnline (removeFromSyncQueue i w) = isOnline w"
  "offline_progress_store (removeFromSyncQueue i w) = offline_progress_store w"
  "last_sync_store (removeFromSyncQueue i w) = last_sync_store w"
  "remote_calls (removeFromSyncQueue i w) = remote_calls w"
  "steps (removeFromSyncQueue i w) = steps w"
  by (simp_all add: removeFromSyncQueue_def)

lemma getSyncQueue_removeFromSyncQueue [simp]:
  "getSyncQueue (removeFromSyncQueue i w) = filter (\<lambda>item. item_id item \<noteq> i) (getSyncQueue w)"
  by (simp add: removeFromSyncQueue_def)

lemma addToSyncQueue_fields [simp]:
  "isOnline (addToSyncQueue e a d w) = isOnline w"
  "offline_progress_store (addToSyncQueue e a d w) = offline_progress_store w"
  "last_sync_store (addToSyncQueue e a d w) = last_sync_store w"
  "remote_calls (addToSyncQueue e a d w) = remote_calls w"
  "steps (addToSyncQueue e a d w) = steps w + 3"
  by (simp_all add: addToSyncQueue_def Let_def)

lemma getSyncQueue_addToSyncQueue:
  "getSyncQueue (addToSyncQueue e a d w) =
     getSyncQueue w @ [\<lparr>item_id = (date_at e (steps w), random_at e (steps w + 1)),
                        action = a, data = d, timestamp = date_at e (steps w + 2),
                        retries = 0\<rparr>]"
  by (simp add: addToSyncQueue_def Let_def getSyncQueue_cong [of "w\<lparr>steps := steps w + 3\<rparr>" w])

lemma invoke_remote_fields [simp]:
  "isOnline (world_of (invoke_remote e r w)) = isOnline w"
  "sync_queue_store (world_of (invoke_remote e r w)) = sync_queue_store w"
  "offline_progress_store (world_of (invoke_remote e r w)) = offline_progress_store w"
  "last_sync_store (world_of (invoke_remote e r w)) = last_sync_store w"
  "remote_calls (world_of (invoke_remote e r w)) = remote_calls w @ [r]"
  "steps (world_of (invoke_remote e r w)) = Suc (steps w)"
  by (simp_all add: invoke_remote_def Let_def)

lemma processSyncItem_fields [simp]:
  "isOnline (world_of (processSyncItem e item u w)) = isOnline w"
  "sync_queue_store (world_of (processSyncItem e item u w)) = sync_queue_store w"
  "offline_progress_store (world_of (processSyncItem e item u w)) = offline_progress_store w"
  "last_sync_store (world_of (processSyncItem e item u w)) = last_sync_store w"
  by (simp_all add: processSyncItem_def)

lemma processSyncItem_calls:
  "\<exists>ops. remote_calls (world_of (processSyncItem e item u w)) = remote_calls w @ ops"
  by (simp add: processSyncItem_def)

lemma processSyncItem_no_handler:
  "handler_for (action item) = None \<or> (\<exists>f. handler_for (action item) = Some f \<and> \<not> defined e f)
   \<Longrightarrow> processSyncItem e item u w = Return () w"
  by (auto simp: processSyncItem_def handler_for_def split: if_splits)

text \<open>One iteration of the queue loop, as a function of the world.\<close>

lemma sync_each_step_fields:
  fixes e item u w
  defines "w' \<equiv> (case processSyncItem e item u w of
          Return v w1 \<Rightarrow> removeFromSyncQueue (item_id item) w1
        | Throw x w1 \<Rightarrow>
            (let item' = item\<lparr>retries := retries item + 1\<rparr>
             in if retries item' \<ge> 3 then removeFromSyncQueue (item_id item') w1 else w1))"
  shows "isOnline w' = isOnline w"
    and "offline_progress_store w' = offline_progress_store w"
    and "last_sync_store w' = last_sync_store w"
    and "set (getSyncQueue w') \<subseteq> set (getSyncQueue w)"
    and "\<exists>ops. remote_calls w' = remote_calls w @ ops"
proof -
  obtain r where r: "r = processSyncItem e item u w" by simp
  have q: "getSyncQueue (world_of r) = getSyncQueue w"
    unfolding r by (rule getSyncQueue_cong) simp
  have f: "isOnline (world_of r) = isOnline w"
      "offline_progress_store (world_of r) = offline_progress_store w"
      "last_sync_store (world_of r) = last_sync_store w"
    unfolding r by simp_all
  obtain ops where c: "remote_calls (world_of r) = remote_calls w @ ops"
    unfolding r using processSyncItem_calls by blast
  show "isOnline w' = isOnline w"
    using f unfolding w'_def r [symmetric] by (cases r) (simp_all add: Let_def)
  show "offline_progress_store w' = offline_progress_store w"
    using f unfolding w'_def r [symmetric] by (cases r) (simp_all add: Let_def)
  show "last_sync_store w' = last_sync_store w"
    using f unfolding w'_def r [symmetric] by (cases r) (simp_all add: Let_def)
  show "set (getSyncQueue w') \<subseteq> set (getSyncQueue w)"
    using q unfolding w'_def r [symmetric] by (cases r) (auto simp: Let_def)
  show "\<exists>ops. remote_calls w' = remote_calls w @ ops"
    using c unfolding w'_def r [symmetric] by (cases r) (simp_all add: Let_def)
qed

lemma sync_each_fields [simp]:
  "isOnline (sync_each e u q w) = isOnline w"
  "offline_progress_store (sync_each e u q w) = offline_progress_store w"
  "last_sync_store (sync_each e u q w) = last_sync_store w"
  by (induction q arbitrary: w; simp add: sync_each_step_fields)+

lemma sync_each_queue_subset:
  "set (getSyncQueue (sync_each e u q w)) \<subseteq> set (getSyncQueue w)"
proof (induction q arbitrary: w)
  case Nil
  show ?case by simp
next
  case (Cons item q)
  show ?case
    unfolding sync_each.simps
    by (rule subset_trans [OF Cons.IH sync_each_step_fields(4)])
qed

lemma sync_each_calls:
  "\<exists>ops. remote_calls (sync_each e u q w) = remote_calls w @ ops"
proof (induction q arbitrary: w)
  case Nil
  show ?case by simp
next
  case (Cons item q)
  obtain ops1 where a: "remote_calls (case processSyncItem e item u w of
          Return v w1 \<Rightarrow> removeFromSyncQueue (item_id item) w1
        | Throw x w1 \<Rightarrow>
            (let item' = item\<lparr>retries := retries item + 1\<rparr>
             in if retries item' \<ge> 3 then removeFromSyncQueue (item_id item') w1 else w1))
       = remote_calls w @ ops1"
    using sync_each_step_fields(5) by blast
  obtain ops2 where b: "remote_calls (sync_each e u (item # q) w) = (remote_calls w @ ops1) @ ops2"
    unfolding sync_each.simps a [symmetric] using Cons.IH by blast
  then show ?case by simp
qed


lemma syncLocalProgressToCloud_fields [simp]:
  "isOnline (world_of (syncLocalProgressToCloud e u w)) = isOnline w"
  "sync_queue_store (world_of (syncLocalProgressToCloud e u w)) = sync_queue_store w"
  "offline_progress_store (world_of (syncLocalProgressToCloud e u w)) = offline_progress_store w"
  "last_sync_store (world_of (syncLocalProgressToCloud e u w)) = last_sync_store w"
proof -
  have p: "isOnline (push_each e m ks v) = isOnline v
         \<and> sync_queue_store (push_each e m ks v) = sync_queue_store v
         \<and> offline_progress_store (push_each e m ks v) = offline_progress_store v
         \<and> last_sync_store (push_each e m ks v) = last_sync_store v" for m ks v
    by (induction ks arbitrary: v) simp_all
  show "isOnline (world_of (syncLocalProgressToCloud e u w)) = isOnline w"
    "sync_queue_store (world_of (syncLocalProgressToCloud e u w)) = sync_queue_store w"
    "offline_progress_store (world_of (syncLocalProgressToCloud e u w)) = offline_progress_store w"
    "last_sync_store (world_of (syncLocalProgressToCloud e u w)) = last_sync_store w"
    by (simp_all add: syncLocalProgressToCloud_def getAllLocalProgress_def Let_def p
          split: sum.splits)
qed

lemma push_each_calls:
  "remote_calls (push_each e m ks w) =
     remote_calls w @
       (if defined e F_saveProgress
        then map (\<lambda>k. Call_saveProgress (Some k) (map_of m k)) ks else [])"
  by (induction ks arbitrary: w) simp_all

lemma syncLocalProgressToCloud_returns:
  "progress_mirror w = Some m \<Longrightarrow>
     syncLocalProgressToCloud e u w = Return () (push_each e m (Object_keys m) w)"
  by (auto simp: progress_mirror_def syncLocalProgressToCloud_def getAllLocalProgress_def
             Let_def split: sum.splits)

lemma progress_mirror_cong:
  "offline_progress_store w' = offline_progress_store w \<Longrightarrow>
     progress_mirror w' = progress_mirror w"
  by (simp add: progress_mirror_def getAllLocalProgress_def split: sum.splits)

text \<open>The pass after its two guards: what it does for a resolved identity.\<close>

lemma syncPendingChanges_online:
  assumes "isOnline w" "defined e F_getCurrentUser" "user_at e (steps w) = Some u"
  shows "syncPendingChanges e w =
     (if getSyncQueue w = [] then Return () (tick w)
      else (case syncLocalProgressToCloud e u (sync_each e u (getSyncQueue w) (tick w)) of
              Throw x w3 \<Rightarrow> Throw x w3
            | Return v w3 \<Rightarrow>
                Return () ((tick w3)\<lparr>last_sync_store := Some (date_at e (steps w3))\<rparr>)))"
  using assms
  by (simp add: syncPendingChanges_def getCurrentUser_def Let_def
        getSyncQueue_cong [of "tick w" w])

lemma syncPendingChanges_skips:
  assumes "\<not> isOnline w \<or> \<not> defined e F_getCurrentUser \<or> user_at e (steps w) = None"
  shows "syncPendingChanges e w = Return () w \<or> syncPendingChanges e w = Return () (tick w)"
  using assms by (auto simp: syncPendingChanges_def getCurrentUser_def)

text \<open>
  C7.  If the connectivity flag is offline, or no identity resolves (the resolver is
  missing or answers with no user), \<open>syncPendingChanges\<close> returns without any call on
  the remote store, and the persisted queue, the progress mirror and the last-sync
  timestamp are what they were.
\<close>

theorem syncPendingChanges_offline_or_anonymous_is_noop:
  assumes "\<not> isOnline w \<or> \<not> defined e F_getCurrentUser \<or> user_at e (steps w) = None"
  shows "\<exists>w'. syncPendingChanges e w = Return () w'
            \<and> remote_calls w' = remote_calls w
            \<and> sync_queue_store w' = sync_queue_store w
            \<and> offline_progress_store w' = offline_progress_store w
            \<and> last_sync_store w' = last_sync_store w"
  using syncPendingChanges_skips [OF assms] by auto

theorem syncPendingChanges_offline_or_anonymous_is_noop_witness:
  "(\<exists>w'. syncPendingChanges env_ok (stuck_world\<lparr>isOnline := False\<rparr>) = Return () w'
         \<and> remote_calls w' = []
         \<and> sync_queue_store w' = Some (Serialized [stuck_item])
         \<and> last_sync_store w' = None)
   \<and> (\<exists>w'. syncPendingChanges env_anonymous stuck_world = Return () w'
         \<and> remote_calls w' = []
         \<and> sync_queue_store w' = Some (Serialized [stuck_item])
         \<and> last_sync_store w' = None)"
  using syncPendingChanges_offline_or_anonymous_is_noop
          [of "stuck_world\<lparr>isOnline := False\<rparr>" env_ok]
        syncPendingChanges_offline_or_anonymous_is_noop [of stuck_world env_anonymous]
  by (auto simp add: stuck_world_def world0_def env_anonymous_def env_ok_def)


text \<open>
  C5.  With malformed content under the queue key \<open>getSyncQueue\<close> answers the empty
  queue, but with malformed content under the progress key the three functions that
  read the progress mirror (\<open>getAllLocalProgress\<close>, \<open>getLocalProgress\<close> and the
  read-modify-write of \<open>saveProgressLocally\<close>) throw the \<open>SyntaxError\<close> of
  \<open>JSON.parse\<close> to their caller: they have no \<open>try\<close>/\<open>catch\<close>.
\<close>

theorem progress_mirror_reads_throw_on_malformed_content:
  "getSyncQueue corrupt_world = []
   \<and> getAllLocalProgress corrupt_world = Throw SyntaxError corrupt_world
   \<and> getLocalProgress ''poem-1'' corrupt_world = Throw SyntaxError corrupt_world
   \<and> saveProgressLocally env_ok ''poem-1'' sample_progress corrupt_world
       = Throw SyntaxError corrupt_world"
  by (simp add: corrupt_world_def world0_def getSyncQueue_def getAllLocalProgress_def
        getLocalProgress_def saveProgressLocally_def)

lemma syncPendingChanges_returns:
  assumes "progress_mirror w \<noteq> None"
  shows "\<exists>w'. syncPendingChanges e w = Return () w'"
proof (cases "\<not> isOnline w \<or> \<not> defined e F_getCurrentUser \<or> user_at e (steps w) = None")
  case True
  then show ?thesis using syncPendingChanges_skips by blast
next
  case False
  then obtain u where u: "isOnline w" "defined e F_getCurrentUser" "user_at e (steps w) = Some u"
    by auto
  obtain m where m: "progress_mirror w = Some m" using assms by auto
  have "progress_mirror (sync_each e u (getSyncQueue w) (tick w)) = progress_mirror w"
    by (rule progress_mirror_cong) simp
  then have "progress_mirror (sync_each e u (getSyncQueue w) (tick w)) = Some m"
    using m by simp
  then show ?thesis
    by (simp add: syncPendingChanges_online [OF u] syncLocalProgressToCloud_returns)
qed

lemma forceSyncNow_online:
  assumes "isOnline w"
  shows "(forceSyncNow e w = Return b w') = (b \<and> syncPendingChanges e w = Return () w')"
  using assms by (auto simp: forceSyncNow_def split: completion.splits)

lemma forceSyncNow_offline:
  assumes "\<not> isOnline w"
  shows "forceSyncNow e w =
           (case showToast_binding e of
              Undeclared \<Rightarrow> Throw ReferenceError w
            | Bound_falsy \<Rightarrow> Return False w
            | Bound_function \<Rightarrow>
                Return False (showToast ''Offline'' ''Cannot sync while offline'' w)
            | Bound_other \<Rightarrow> Throw TypeError w)"
  using assms
  by (simp add: forceSyncNow_def showToast_if_any_def split: global_binding.splits)

text \<open>
  C8.  \<open>forceSyncNow\<close> does not always return.  Online, with a resolving identity, a
  queued item and unparsable content under the progress key, the pass syncs and
  dequeues the item, then \<open>getAllLocalProgress\<close> throws inside
  \<open>syncLocalProgressToCloud\<close>, and \<open>forceSyncNow\<close> rejects with that \<open>SyntaxError\<close>
  instead of returning \<open>true\<close>; no last-sync timestamp is recorded.  Offline, where
  \<open>showToast\<close> is not declared, reading it throws a \<open>ReferenceError\<close> and \<open>false\<close> is
  not returned.
\<close>

theorem forceSyncNow_rejects_instead_of_returning:
  "isOnline corrupt_pending_world
   \<and> user_at env_ok (steps corrupt_pending_world) = Some ''u1''
   \<and> getSyncQueue corrupt_pending_world = [stuck_item]
   \<and> forceSyncNow env_ok corrupt_pending_world =
       Throw SyntaxError
         (corrupt_pending_world
            \<lparr>sync_queue_store := Some (Serialized []),
             remote_calls := [Call_saveProgress (Some ''poem-1'') (Some sample_progress)],
             steps := 2\<rparr>)
   \<and> \<not> isOnline world0
   \<and> forceSyncNow env_no_toast world0 = Throw ReferenceError world0"
  by (simp add: corrupt_pending_world_def stuck_world_def stuck_item_def world0_def
        env_no_toast_def env_ok_def getSyncQueue_def forceSyncNow_def showToast_if_any_def
        syncPendingChanges_def getCurrentUser_def tick_def processSyncItem_def
        invoke_remote_def Let_def removeFromSyncQueue_def saveSyncQueue_def
        syncLocalProgressToCloud_def getAllLocalProgress_def)




section \<open>What a pass does to the queue\<close>

lemma sync_each_removes:
  assumes "item \<in> set q" and "\<And>w0. processSyncItem e item u w0 = Return () w0"
  shows "\<forall>i \<in> set (getSyncQueue (sync_each e u q w)). item_id i \<noteq> item_id item"
  using assms(1)
proof (induction q arbitrary: w)
  case Nil
  then show ?case by simp
next
  case (Cons a q)
  show ?case
  proof (cases "a = item")
    case True
    have "set (getSyncQueue (sync_each e u q (removeFromSyncQueue (item_id item) w)))
            \<subseteq> set (getSyncQueue (removeFromSyncQueue (item_id item) w))"
      by (rule sync_each_queue_subset)
    then show ?thesis
      using True by (auto simp: assms(2))
  next
    case False
    then have "item \<in> set q" using Cons.prems by simp
    then show ?thesis by (simp add: Cons.IH)
  qed
qed

lemma syncPendingChanges_queue:
  assumes "isOnline w" "defined e F_getCurrentUser" "user_at e (steps w) = Some u"
  shows "getSyncQueue (world_of (syncPendingChanges e w)) =
           getSyncQueue (sync_each e u (getSyncQueue w) (tick w))"
proof (cases "getSyncQueue w = []")
  case True
  then show ?thesis
    by (simp add: syncPendingChanges_online [OF assms] getSyncQueue_cong [of "tick w" w])
next
  case False
  let ?w2 = "sync_each e u (getSyncQueue w) (tick w)"
  let ?r = "syncLocalProgressToCloud e u ?w2"
  have "sync_queue_store (world_of ?r) = sync_queue_store ?w2" by simp
  then have q: "getSyncQueue (world_of ?r) = getSyncQueue ?w2" by (rule getSyncQueue_cong)
  show ?thesis
  proof (cases ?r)
    case (Return v w3)
    then have "getSyncQueue (world_of (syncPendingChanges e w))
                 = getSyncQueue ((tick w3)\<lparr>last_sync_store := Some (date_at e (steps w3))\<rparr>)"
      using False by (simp add: syncPendingChanges_online [OF assms])
    also have "\<dots> = getSyncQueue w3" by (rule getSyncQueue_cong) simp
    finally show ?thesis using q Return by simp
  next
    case (Throw x w3)
    then show ?thesis using False q by (simp add: syncPendingChanges_online [OF assms])
  qed
qed

text \<open>
  C3 (as the code has it).  An item whose action is none of the five recognised values
  makes \<open>processSyncItem\<close> log a warning and return normally, without a call on the
  remote store; the pass takes that for a success and dequeues the item: after a pass
  run online with a resolving identity, no item with its id is left in the persisted
  queue.
\<close>

theorem unknown_action_item_is_dequeued:
  assumes "isOnline w" "defined e F_getCurrentUser" "user_at e (steps w) = Some u"
    and "item \<in> set (getSyncQueue w)"
    and "action item \<notin> {''save_poem'', ''remove_poem'', ''save_progress'', ''save_quote'',
                          ''delete_quote''}"
  shows "processSyncItem e item u w0 = Return () w0
       \<and> item_id item \<notin> item_id ` set (getSyncQueue (world_of (syncPendingChanges e w)))"
proof -
  have h: "handler_for (action item) = None"
    using assms(5) by (simp add: handler_for_def)
  then have p: "processSyncItem e item u v = Return () v" for v
    by (simp add: processSyncItem_no_handler)
  show ?thesis
    using p sync_each_removes [OF assms(4), of e u "tick w"]
    by (auto simp: syncPendingChanges_queue [OF assms(1-3)])
qed

theorem unknown_action_item_is_dequeued_witness:
  "unknown_item \<in> set (getSyncQueue unknown_world)
   \<and> processSyncItem env_ok unknown_item ''u1'' unknown_world = Return () unknown_world
   \<and> item_id unknown_item
         \<notin> item_id ` set (getSyncQueue (world_of (syncPendingChanges env_ok unknown_world)))"
  using unknown_action_item_is_dequeued
          [of unknown_world env_ok "''u1''" unknown_item unknown_world]
  by (simp add: unknown_world_def unknown_item_def stuck_item_def world0_def env_ok_def
        getSyncQueue_def)

theorem unknown_action_item_survives_counterexample:
  "isOnline unknown_world \<and> user_at env_ok (steps unknown_world) = Some ''u1''
   \<and> action unknown_item = ''rename_poem''
   \<and> getSyncQueue unknown_world = [unknown_item]
   \<and> getSyncQueue (world_of (syncPendingChanges env_ok unknown_world)) = []"
proof -
  have a: "isOnline unknown_world" "defined env_ok F_getCurrentUser"
      "user_at env_ok (steps unknown_world) = Some ''u1''"
    by (simp_all add: unknown_world_def world0_def env_ok_def)
  have q: "getSyncQueue unknown_world = [unknown_item]"
    by (simp add: unknown_world_def getSyncQueue_def)
  have p: "processSyncItem env_ok unknown_item ''u1'' v = Return () v" for v
    by (simp add: processSyncItem_def unknown_item_def stuck_item_def)
  have "getSyncQueue (world_of (syncPendingChanges env_ok unknown_world)) = []"
    by (simp add: syncPendingChanges_queue [OF a] q p getSyncQueue_cong [of "tick unknown_world" unknown_world])
  then show ?thesis using a q by (simp add: unknown_item_def)
qed

text \<open>
  C9.  When the function that handles an item's recognised action does not exist,
  \<open>processSyncItem\<close> returns normally without any call on the remote store, and the
  pass (online, identity resolving) dequeues the item as if it had been synced.
\<close>

theorem absent_handler_item_is_dequeued:
  assumes "isOnline w" "defined e F_getCurrentUser" "user_at e (steps w) = Some u"
    and "item \<in> set (getSyncQueue w)"
    and "handler_for (action item) = Some f" and "\<not> defined e f"
  shows "processSyncItem e item u w0 = Return () w0
       \<and> item_id item \<notin> item_id ` set (getSyncQueue (world_of (syncPendingChanges e w)))"
proof -
  have p: "processSyncItem e item u v = Return () v" for v
    using assms(5,6) by (simp add: processSyncItem_no_handler)
  show ?thesis
    using p sync_each_removes [OF assms(4), of e u "tick w"]
    by (auto simp: syncPendingChanges_queue [OF assms(1-3)])
qed

theorem absent_handler_item_is_dequeued_witness:
  "stuck_item \<in> set (getSyncQueue stuck_world)
   \<and> handler_for (action stuck_item) = Some F_saveProgress
   \<and> \<not> defined env_bare F_saveProgress
   \<and> processSyncItem env_bare stuck_item ''u1'' stuck_world = Return () stuck_world
   \<and> item_id stuck_item
         \<notin> item_id ` set (getSyncQueue (world_of (syncPendingChanges env_bare stuck_world)))"
  using absent_handler_item_is_dequeued
          [of stuck_world env_bare "''u1''" stuck_item F_saveProgress stuck_world]
  by (simp add: stuck_world_def stuck_item_def world0_def env_bare_def env_ok_def
        getSyncQueue_def handler_for_def)


text \<open>
  C4 (as the code has it).  Online with a resolving identity: when the snapshot of the
  queue is empty, \<open>syncPendingChanges\<close> returns at its third guard, with no call on the
  remote store and the last-sync timestamp left as it was.  Only when the snapshot is
  not empty does it, after the queue loop (whose calls are \<open>ops\<close>), push every snapshot
  of a readable progress mirror through \<open>saveProgress\<close> (when that function exists), in
  the order of \<open>Object.keys\<close>, and then record the clock's reading as last-sync timestamp.
\<close>

theorem empty_queue_skips_full_reconcile:
  assumes "isOnline w" "defined e F_getCurrentUser" "user_at e (steps w) = Some u"
  shows "(getSyncQueue w = [] \<longrightarrow>
            (\<exists>w'. syncPendingChanges e w = Return () w'
                 \<and> remote_calls w' = remote_calls w
                 \<and> last_sync_store w' = last_sync_store w))
       \<and> (getSyncQueue w \<noteq> [] \<and> progress_mirror w = Some m \<longrightarrow>
            (\<exists>w' ops. syncPendingChanges e w = Return () w'
                 \<and> remote_calls w' =
                     remote_calls w @ ops @
                       (if defined e F_saveProgress
                        then map (\<lambda>k. Call_saveProgress (Some k) (map_of m k)) (Object_keys m)
                        else [])
                 \<and> last_sync_store w' = Some (date_at e (steps w' - 1))))"
proof (intro conjI impI)
  assume "getSyncQueue w = []"
  then show "\<exists>w'. syncPendingChanges e w = Return () w'
                 \<and> remote_calls w' = remote_calls w
                 \<and> last_sync_store w' = last_sync_store w"
    by (simp add: syncPendingChanges_online [OF assms])
next
  assume a: "getSyncQueue w \<noteq> [] \<and> progress_mirror w = Some m"
  let ?w2 = "sync_each e u (getSyncQueue w) (tick w)"
  let ?w3 = "push_each e m (Object_keys m) ?w2"
  let ?w' = "(tick ?w3)\<lparr>last_sync_store := Some (date_at e (steps ?w3))\<rparr>"
  obtain ops where ops: "remote_calls ?w2 = remote_calls (tick w) @ ops"
    using sync_each_calls by blast
  have "progress_mirror ?w2 = progress_mirror w"
    by (rule progress_mirror_cong) simp
  then have "syncLocalProgressToCloud e u ?w2 = Return () ?w3"
    using a by (simp add: syncLocalProgressToCloud_returns)
  then have r: "syncPendingChanges e w = Return () ?w'"
    using a by (simp add: syncPendingChanges_online [OF assms])
  have c: "remote_calls ?w' =
             remote_calls w @ ops @
               (if defined e F_saveProgress
                then map (\<lambda>k. Call_saveProgress (Some k) (map_of m k)) (Object_keys m)
                else [])"
    using ops by (simp add: push_each_calls)
  have t: "last_sync_store ?w' = Some (date_at e (steps ?w' - 1))"
    by simp
  show "\<exists>w' ops. syncPendingChanges e w = Return () w'
                 \<and> remote_calls w' =
                     remote_calls w @ ops @
                       (if defined e F_saveProgress
                        then map (\<lambda>k. Call_saveProgress (Some k) (map_of m k)) (Object_keys m)
                        else [])
                 \<and> last_sync_store w' = Some (date_at e (steps w' - 1))"
    using r c t by blast
qed

theorem empty_queue_skips_full_reconcile_witness:
  "(\<exists>w'. syncPendingChanges env_ok mirror_only_world = Return () w'
        \<and> remote_calls w' = [] \<and> last_sync_store w' = None)
   \<and> (\<exists>w' ops. syncPendingChanges env_ok pending_world = Return () w'
        \<and> remote_calls w' =
            ops @ [Call_saveProgress (Some ''poem-1'')
                     (Some (sample_progress\<lparr>updatedAt := Some 900\<rparr>))]
        \<and> last_sync_store w' = Some (date_at env_ok (steps w' - 1)))"
proof -
  have k: "Object_keys [(''poem-1'', sample_progress\<lparr>updatedAt := Some 900\<rparr>)] = [''poem-1'']"
    by (simp add: Object_keys_def is_array_index_def is_digit_def)
  have a: "isOnline mirror_only_world" "defined env_ok F_getCurrentUser"
      "user_at env_ok (steps mirror_only_world) = Some ''u1''"
      "getSyncQueue mirror_only_world = []"
    by (simp_all add: mirror_only_world_def world0_def env_ok_def getSyncQueue_def)
  have b: "isOnline pending_world" "user_at env_ok (steps pending_world) = Some ''u1''"
      "getSyncQueue pending_world \<noteq> []"
      "progress_mirror pending_world
         = Some [(''poem-1'', sample_progress\<lparr>updatedAt := Some 900\<rparr>)]"
      "remote_calls pending_world = []" "remote_calls mirror_only_world = []"
      "last_sync_store mirror_only_world = None" "defined env_ok F_saveProgress"
    by (simp_all add: pending_world_def mirror_only_world_def world0_def env_ok_def
          getSyncQueue_def progress_mirror_def getAllLocalProgress_def)
  show ?thesis
    using empty_queue_skips_full_reconcile [OF a(1-3), of "[]"]
          empty_queue_skips_full_reconcile [OF b(1) a(2) b(2),
            of "[(''poem-1'', sample_progress\<lparr>updatedAt := Some 900\<rparr>)]"]
    by (simp add: a b k)
qed

theorem empty_queue_full_reconcile_counterexample:
  "isOnline mirror_only_world
   \<and> user_at env_ok (steps mirror_only_world) = Some ''u1''
   \<and> getSyncQueue mirror_only_world = []
   \<and> progress_mirror mirror_only_world
       = Some [(''poem-1'', sample_progress\<lparr>updatedAt := Some 900\<rparr>)]
   \<and> syncPendingChanges env_ok mirror_only_world = Return () (tick mirror_only_world)
   \<and> remote_calls (tick mirror_only_world) = []
   \<and> last_sync_store (tick mirror_only_world) = None"
  by (simp add: mirror_only_world_def world0_def env_ok_def getSyncQueue_def
        progress_mirror_def getAllLocalProgress_def syncPendingChanges_def
        getCurrentUser_def)


section \<open>The write facade\<close>

lemma progress_mirror_iff:
  "progress_mirror w = Some m \<longleftrightarrow> JSON_parse (or_default (offline_progress_store w) []) = Inr m"
  by (simp add: progress_mirror_def getAllLocalProgress_def split: sum.splits)

lemma progress_mirror_stored:
  "offline_progress_store w = Some (Serialized m) \<Longrightarrow> progress_mirror w = Some m"
  by (simp add: progress_mirror_iff)

lemma saveProgressLocally_upserts:
  assumes "progress_mirror w = Some m" and "poemId \<noteq> ''__proto__''"
  shows "saveProgressLocally e poemId prog w =
           Return ()
             ((tick w)\<lparr>offline_progress_store :=
                Some (Serialized
                  (AList.update poemId (prog\<lparr>updatedAt := Some (date_at e (steps w))\<rparr>) m))\<rparr>)"
  using assms by (simp add: progress_mirror_iff saveProgressLocally_def assign_property_def)

lemma addToSyncQueue_appends:
  assumes "sync_queue_store v = sync_queue_store w"
  shows "\<exists>item. getSyncQueue (addToSyncQueue e a d v) = getSyncQueue w @ [item]
              \<and> action item = a \<and> data item = d \<and> retries item = 0"
  by (simp add: getSyncQueue_addToSyncQueue getSyncQueue_cong [OF assms])

text \<open>
  What follows the local save in both wrappers: resolve the identity, try the remote
  call \<open>rop\<close>, and queue \<open>(a, d)\<close> unless that call succeeded.
\<close>

lemma facade_tail:
  fixes e :: env and v :: world and f :: collaborator and rop :: "user \<Rightarrow> remote_op"
    and a :: string and d :: payload
  defines "r \<equiv>
     (if isOnline v \<and> defined e F_getCurrentUser then
        (case getCurrentUser e v of
           (Some usr, w2) \<Rightarrow>
             (if defined e f then
                (case invoke_remote e (rop usr) w2 of
                   Return u' w3 \<Rightarrow> Return () w3
                 | Throw x w3 \<Rightarrow> Return () (addToSyncQueue e a d w3))
              else Return () (addToSyncQueue e a d w2))
         | (None, w2) \<Rightarrow> Return () (addToSyncQueue e a d w2))
      else Return () (addToSyncQueue e a d v))"
  shows "\<exists>w'. r = Return () w'
           \<and> isOnline w' = isOnline v
           \<and> offline_progress_store w' = offline_progress_store v
           \<and> (if isOnline v \<and> defined e F_getCurrentUser \<and> defined e f
                  \<and> (\<exists>usr. user_at e (steps v) = Some usr
                         \<and> remote_ok e (Suc (steps v)) (rop usr))
               then getSyncQueue w' = getSyncQueue v
                  \<and> remote_calls w' = remote_calls v @ [rop (the (user_at e (steps v)))]
               else (\<exists>item. getSyncQueue w' = getSyncQueue v @ [item]
                      \<and> action item = a \<and> data item = d \<and> retries item = 0))"
proof (cases "isOnline v \<and> defined e F_getCurrentUser")
  case False
  then have "r = Return () (addToSyncQueue e a d v)" by (auto simp: r_def)
  then show ?thesis
    using False addToSyncQueue_appends [of v v e a d] by auto
next
  case True
  show ?thesis
  proof (cases "user_at e (steps v)")
    case None
    then have "r = Return () (addToSyncQueue e a d (tick v))"
      using True by (simp add: r_def getCurrentUser_def)
    then show ?thesis
      using None addToSyncQueue_appends [of "tick v" v e a d] by auto
  next
    case (Some usr)
    show ?thesis
    proof (cases "defined e f")
      case False
      then have "r = Return () (addToSyncQueue e a d (tick v))"
        using True Some by (simp add: r_def getCurrentUser_def)
      then show ?thesis
        using False addToSyncQueue_appends [of "tick v" v e a d] by auto
    next
      case d: True
      let ?w3 = "world_of (invoke_remote e (rop usr) (tick v))"
      show ?thesis
      proof (cases "remote_ok e (Suc (steps v)) (rop usr)")
        case True
        then have "r = Return () ?w3"
          using \<open>isOnline v \<and> defined e F_getCurrentUser\<close> Some d
          by (simp add: r_def getCurrentUser_def invoke_remote_def Let_def)
        moreover have "getSyncQueue ?w3 = getSyncQueue v"
          by (rule getSyncQueue_cong) simp
        ultimately show ?thesis
          using \<open>isOnline v \<and> defined e F_getCurrentUser\<close> Some d True by simp
      next
        case False
        then have "r = Return () (addToSyncQueue e a d ?w3)"
          using \<open>isOnline v \<and> defined e F_getCurrentUser\<close> Some d
          by (simp add: r_def getCurrentUser_def invoke_remote_def Let_def)
        then show ?thesis
          using False Some addToSyncQueue_appends [of ?w3 v e a d] by auto
      qed
    qed
  qed
qed

lemma saveProgressOffline_effect:
  assumes "progress_mirror w = Some m" and "poemId \<noteq> ''__proto__''"
  shows "\<exists>w'. saveProgressOffline e poemId prog w = Return () w'
           \<and> isOnline w' = isOnline w
           \<and> progress_mirror w' =
               Some (AList.update poemId (prog\<lparr>updatedAt := Some (date_at e (steps w))\<rparr>) m)
           \<and> (if isOnline w \<and> defined e F_getCurrentUser \<and> defined e F_saveProgress
                  \<and> (\<exists>usr. user_at e (steps w + 1) = Some usr
                         \<and> remote_ok e (steps w + 2) (Call_saveProgress (Some poemId) (Some prog)))
               then getSyncQueue w' = getSyncQueue w
                  \<and> remote_calls w' =
                      remote_calls w @ [Call_saveProgress (Some poemId) (Some prog)]
               else (\<exists>item. getSyncQueue w' = getSyncQueue w @ [item]
                      \<and> action item = ''save_progress''
                      \<and> data item = ProgressData poemId prog \<and> retries item = 0))"
proof -
  let ?snap = "prog\<lparr>updatedAt := Some (date_at e (steps w))\<rparr>"
  let ?w1 = "(tick w)\<lparr>offline_progress_store := Some (Serialized (AList.update poemId ?snap m))\<rparr>"
  have q: "getSyncQueue ?w1 = getSyncQueue w" by (rule getSyncQueue_cong) simp
  have s: "saveProgressOffline e poemId prog w =
     (if isOnline ?w1 \<and> defined e F_getCurrentUser then
        (case getCurrentUser e ?w1 of
           (Some usr, w2) \<Rightarrow>
             (if defined e F_saveProgress then
                (case invoke_remote e (Call_saveProgress (Some poemId) (Some prog)) w2 of
                   Return u' w3 \<Rightarrow> Return () w3
                 | Throw x w3 \<Rightarrow>
                     Return () (addToSyncQueue e ''save_progress'' (ProgressData poemId prog) w3))
              else Return () (addToSyncQueue e ''save_progress'' (ProgressData poemId prog) w2))
         | (None, w2) \<Rightarrow>
             Return () (addToSyncQueue e ''save_progress'' (ProgressData poemId prog) w2))
      else Return () (addToSyncQueue e ''save_progress'' (ProgressData poemId prog) ?w1))"
    unfolding saveProgressOffline_def saveProgressLocally_upserts [OF assms] by simp
  obtain w' where w': "saveProgressOffline e poemId prog w = Return () w'"
      "isOnline w' = isOnline ?w1"
      "offline_progress_store w' = offline_progress_store ?w1"
      "if isOnline ?w1 \<and> defined e F_getCurrentUser \<and> defined e F_saveProgress
            \<and> (\<exists>usr. user_at e (steps ?w1) = Some usr
                 \<and> remote_ok e (Suc (steps ?w1)) (Call_saveProgress (Some poemId) (Some prog)))
       then getSyncQueue w' = getSyncQueue ?w1
          \<and> remote_calls w' = remote_calls ?w1 @ [Call_saveProgress (Some poemId) (Some prog)]
       else (\<exists>item. getSyncQueue w' = getSyncQueue ?w1 @ [item]
              \<and> action item = ''save_progress''
              \<and> data item = ProgressData poemId prog \<and> retries item = 0)"
    unfolding s
    using facade_tail [where v = ?w1 and e = e and f = F_saveProgress
            and rop = "\<lambda>usr. Call_saveProgress (Some poemId) (Some prog)"
            and a = "''save_progress''" and d = "ProgressData poemId prog"]
    by blast
  have "progress_mirror w' = Some (AList.update poemId ?snap m)"
    using w'(3) by (simp add: progress_mirror_stored)
  then show "\<exists>w'. saveProgressOffline e poemId prog w = Return () w'
           \<and> isOnline w' = isOnline w
           \<and> progress_mirror w' = Some (AList.update poemId ?snap m)
           \<and> (if isOnline w \<and> defined e F_getCurrentUser \<and> defined e F_saveProgress
                  \<and> (\<exists>usr. user_at e (steps w + 1) = Some usr
                         \<and> remote_ok e (steps w + 2) (Call_saveProgress (Some poemId) (Some prog)))
               then getSyncQueue w' = getSyncQueue w
                  \<and> remote_calls w' =
                      remote_calls w @ [Call_saveProgress (Some poemId) (Some prog)]
               else (\<exists>item. getSyncQueue w' = getSyncQueue w @ [item]
                      \<and> action item = ''save_progress''
                      \<and> data item = ProgressData poemId prog \<and> retries item = 0))"
    using w'(1,2,4) unfolding q by (intro exI [of _ w']) simp
qed

lemma saveUserPoemOffline_effect:
  assumes "progress_mirror w = Some m" and "poem_id p \<noteq> ''__proto__''"
  shows "\<exists>w'. saveUserPoemOffline e p w = Return () w'
           \<and> isOnline w' = isOnline w
           \<and> progress_mirror w' =
               Some (AList.update (poem_id p)
                      \<lparr>stage = poem_stage p, stageRepetition = poem_stageRepetition p,
                       lastPracticed = poem_lastPracticed p,
                       successfulReviews = poem_successfulReviews p,
                       hintsUsed = poem_hintsUsed p,
                       updatedAt = Some (date_at e (steps w))\<rparr> m)
           \<and> (if isOnline w \<and> defined e F_getCurrentUser \<and> defined e F_saveUserPoem
                  \<and> (\<exists>usr. user_at e (steps w + 1) = Some usr
                         \<and> remote_ok e (steps w + 2) (Call_saveUserPoem usr (PoemData p)))
               then getSyncQueue w' = getSyncQueue w
                  \<and> remote_calls w' =
                      remote_calls w
                        @ [Call_saveUserPoem (the (user_at e (steps w + 1))) (PoemData p)]
               else (\<exists>item. getSyncQueue w' = getSyncQueue w @ [item]
                      \<and> action item = ''save_poem''
                      \<and> data item = PoemData p \<and> retries item = 0))"
proof -
  let ?snap = "\<lparr>stage = poem_stage p, stageRepetition = poem_stageRepetition p,
                lastPracticed = poem_lastPracticed p,
                successfulReviews = poem_successfulReviews p,
                hintsUsed = poem_hintsUsed p,
                updatedAt = Some (date_at e (steps w))\<rparr>"
  let ?w1 = "(tick w)\<lparr>offline_progress_store :=
               Some (Serialized (AList.update (poem_id p) ?snap m))\<rparr>"
  have q: "getSyncQueue ?w1 = getSyncQueue w" by (rule getSyncQueue_cong) simp
  have s: "saveUserPoemOffline e p w =
     (if isOnline ?w1 \<and> defined e F_getCurrentUser then
        (case getCurrentUser e ?w1 of
           (Some usr, w2) \<Rightarrow>
             (if defined e F_saveUserPoem then
                (case invoke_remote e (Call_saveUserPoem usr (PoemData p)) w2 of
                   Return u' w3 \<Rightarrow> Return () w3
                 | Throw x w3 \<Rightarrow> Return () (addToSyncQueue e ''save_poem'' (PoemData p) w3))
              else Return () (addToSyncQueue e ''save_poem'' (PoemData p) w2))
         | (None, w2) \<Rightarrow> Return () (addToSyncQueue e ''save_poem'' (PoemData p) w2))
      else Return () (addToSyncQueue e ''save_poem'' (PoemData p) ?w1))"
    unfolding saveUserPoemOffline_def saveProgressLocally_upserts [OF assms] by simp
  obtain w' where w': "saveUserPoemOffline e p w = Return () w'"
      "isOnline w' = isOnline ?w1"
      "offline_progress_store w' = offline_progress_store ?w1"
      "if isOnline ?w1 \<and> defined e F_getCurrentUser \<and> defined e F_saveUserPoem
            \<and> (\<exists>usr. user_at e (steps ?w1) = Some usr
                 \<and> remote_ok e (Suc (steps ?w1)) (Call_saveUserPoem usr (PoemData p)))
       then getSyncQueue w' = getSyncQueue ?w1
          \<and> remote_calls w' =
              remote_calls ?w1 @ [Call_saveUserPoem (the (user_at e (steps ?w1))) (PoemData p)]
       else (\<exists>item. getSyncQueue w' = getSyncQueue ?w1 @ [item]
              \<and> action item = ''save_poem''
              \<and> data item = PoemData p \<and> retries item = 0)"
    unfolding s
    using facade_tail [where v = ?w1 and e = e and f = F_saveUserPoem
            and rop = "\<lambda>usr. Call_saveUserPoem usr (PoemData p)"
            and a = "''save_poem''" and d = "PoemData p"]
    by blast
  have "progress_mirror w' = Some (AList.update (poem_id p) ?snap m)"
    using w'(3) by (simp add: progress_mirror_stored)
  then show "\<exists>w'. saveUserPoemOffline e p w = Return () w'
           \<and> isOnline w' = isOnline w
           \<and> progress_mirror w' = Some (AList.update (poem_id p) ?snap m)
           \<and> (if isOnline w \<and> defined e F_getCurrentUser \<and> defined e F_saveUserPoem
                  \<and> (\<exists>usr. user_at e (steps w + 1) = Some usr
                         \<and> remote_ok e (steps w + 2) (Call_saveUserPoem usr (PoemData p)))
               then getSyncQueue w' = getSyncQueue w
                  \<and> remote_calls w' =
                      remote_calls w
                        @ [Call_saveUserPoem (the (user_at e (steps w + 1))) (PoemData p)]
               else (\<exists>item. getSyncQueue w' = getSyncQueue w @ [item]
                      \<and> action item = ''save_poem''
                      \<and> data item = PoemData p \<and> retries item = 0))"
    using w'(1,2,4) unfolding q by (intro exI [of _ w']) simp
qed

text \<open>
  C1.  With unparsable content under the progress key, \<open>saveProgressOffline\<close> and
  \<open>saveUserPoemOffline\<close> throw the \<open>SyntaxError\<close> of their first statement, online as
  well as offline, and leave the state as it was: nothing is upserted into the mirror,
  nothing is sent to the remote store and nothing is queued.  And for the poem id
  \<open>__proto__\<close> the local save stores no entry in the mirror.
\<close>

theorem write_facade_throws_on_malformed_mirror:
  "saveProgressOffline env_ok ''poem-1'' sample_progress (corrupt_mirror_world\<lparr>isOnline := True\<rparr>)
     = Throw SyntaxError (corrupt_mirror_world\<lparr>isOnline := True\<rparr>)
   \<and> saveUserPoemOffline env_ok sample_poem (corrupt_mirror_world\<lparr>isOnline := True\<rparr>)
     = Throw SyntaxError (corrupt_mirror_world\<lparr>isOnline := True\<rparr>)
   \<and> saveProgressOffline env_ok ''poem-1'' sample_progress corrupt_mirror_world
     = Throw SyntaxError corrupt_mirror_world
   \<and> saveUserPoemOffline env_ok sample_poem corrupt_mirror_world
     = Throw SyntaxError corrupt_mirror_world
   \<and> getSyncQueue corrupt_mirror_world = []
   \<and> remote_calls corrupt_mirror_world = []
   \<and> progress_mirror (world_of (saveProgressOffline env_ok ''__proto__'' sample_progress world0))
     = Some []"
  by (simp add: corrupt_mirror_world_def world0_def saveProgressOffline_def
        saveUserPoemOffline_def saveProgressLocally_def getSyncQueue_def
        assign_property_def progress_mirror_stored)

section \<open>Sequences of offline writes\<close>

lemma saveProgressOffline_offline:
  assumes "\<not> isOnline w" "progress_mirror w = Some m" "poemId \<noteq> ''__proto__''"
  shows "\<exists>w' item t. saveProgressOffline e poemId prog w = Return () w'
           \<and> \<not> isOnline w'
           \<and> progress_mirror w' = Some (AList.update poemId (prog\<lparr>updatedAt := Some t\<rparr>) m)
           \<and> getSyncQueue w' = getSyncQueue w @ [item]
           \<and> action item = ''save_progress''
           \<and> data item = ProgressData poemId prog \<and> retries item = 0"
  using saveProgressOffline_effect [OF assms(2,3), of e prog] assms(1)
  by auto

text \<open>
  Offline writes where the local save works (readable mirror, no poem id \<open>__proto__\<close>):
  the last write per poem id wins, and the queue gains one \<open>save_progress\<close> item per
  call, in the order of the calls.
\<close>

lemma offline_writes_when_mirror_writable:
  assumes "\<not> isOnline w" "progress_mirror w = Some m" "''__proto__'' \<notin> fst ` set calls"
  shows "\<exists>w' m'. saveProgressOffline_all e calls w = Return () w'
           \<and> progress_mirror w' = Some m'
           \<and> (\<forall>poemId.
                 case map_of (rev calls) poemId of
                   None \<Rightarrow> map_of m' poemId = map_of m poemId
                 | Some prog \<Rightarrow> (\<exists>t. map_of m' poemId = Some (prog\<lparr>updatedAt := Some t\<rparr>)))
           \<and> map (\<lambda>i. (action i, data i, retries i)) (getSyncQueue w') =
               map (\<lambda>i. (action i, data i, retries i)) (getSyncQueue w)
                 @ map (\<lambda>(poemId, prog). (''save_progress'', ProgressData poemId prog, 0)) calls
           \<and> getPendingSyncCount w' = getPendingSyncCount w + length calls"
  using assms unfolding getPendingSyncCount_def
proof (induction calls arbitrary: w m)
  case Nil
  then show ?case by simp
next
  case (Cons c calls)
  obtain poemId prog where c: "c = (poemId, prog)" by (cases c)
  have ne: "poemId \<noteq> ''__proto__''" and rest: "''__proto__'' \<notin> fst ` set calls"
    using Cons.prems(3) by (auto simp: c)
  obtain w1 item t where s:
      "saveProgressOffline e poemId prog w = Return () w1" "\<not> isOnline w1"
      "progress_mirror w1 = Some (AList.update poemId (prog\<lparr>updatedAt := Some t\<rparr>) m)"
      "getSyncQueue w1 = getSyncQueue w @ [item]" "action item = ''save_progress''"
      "data item = ProgressData poemId prog" "retries item = 0"
    using saveProgressOffline_offline [OF Cons.prems(1,2) ne, of e prog] by blast
  let ?m1 = "AList.update poemId (prog\<lparr>updatedAt := Some t\<rparr>) m"
  obtain w' m' where r:
      "saveProgressOffline_all e calls w1 = Return () w'" "progress_mirror w' = Some m'"
      "\<forall>k. case map_of (rev calls) k of
             None \<Rightarrow> map_of m' k = map_of ?m1 k
           | Some pr \<Rightarrow> (\<exists>t. map_of m' k = Some (pr\<lparr>updatedAt := Some t\<rparr>))"
      "map (\<lambda>i. (action i, data i, retries i)) (getSyncQueue w') =
         map (\<lambda>i. (action i, data i, retries i)) (getSyncQueue w1)
           @ map (\<lambda>(poemId, prog). (''save_progress'', ProgressData poemId prog, 0)) calls"
      "length (getSyncQueue w') = length (getSyncQueue w1) + length calls"
    using Cons.IH [OF s(2,3) rest] by blast
  have run: "saveProgressOffline_all e (c # calls) w = Return () w'"
    by (simp add: c s(1) r(1))
  have mir: "case map_of (rev (c # calls)) k of
               None \<Rightarrow> map_of m' k = map_of m k
             | Some pr \<Rightarrow> (\<exists>t. map_of m' k = Some (pr\<lparr>updatedAt := Some t\<rparr>))" for k
  proof (cases "map_of (rev calls) k")
    case (Some pr)
    then show ?thesis using r(3) [rule_format, of k] by (simp add: c map_add_def)
  next
    case None
    then have 1: "map_of m' k = map_of ?m1 k" using r(3) [rule_format, of k] by simp
    show ?thesis
    proof (cases "k = poemId")
      case True
      then show ?thesis using None 1 by (auto simp: c map_add_def update_conv')
    next
      case False
      then show ?thesis using None 1 by (simp add: c map_add_def update_conv')
    qed
  qed
  have que: "map (\<lambda>i. (action i, data i, retries i)) (getSyncQueue w') =
               map (\<lambda>i. (action i, data i, retries i)) (getSyncQueue w)
                 @ map (\<lambda>(poemId, prog). (''save_progress'', ProgressData poemId prog, 0))
                     (c # calls)"
    by (simp add: r(4) s(4-7) c)
  have len: "length (getSyncQueue w') = length (getSyncQueue w) + length (c # calls)"
    by (simp add: r(5) s(4))
  show ?case using run r(2) mir que len by blast
qed

text \<open>
  C6.  Offline, with unparsable content under the progress key, a sequence of two
  \<open>saveProgressOffline\<close> calls throws at the first: the mirror holds no snapshot and
  the queue no entry, where the calls were two.  And after one offline call for the poem
  id \<open>__proto__\<close> the queue has its entry but the mirror has no snapshot for that id.
\<close>

theorem offline_writes_lost_on_malformed_mirror:
  "\<not> isOnline corrupt_mirror_world
   \<and> saveProgressOffline_all env_ok
         [(''poem-1'', sample_progress), (''poem-1'', sample_progress\<lparr>stage := 3\<rparr>)]
         corrupt_mirror_world
       = Throw SyntaxError corrupt_mirror_world
   \<and> progress_mirror corrupt_mirror_world = None
   \<and> getPendingSyncCount corrupt_mirror_world = 0
   \<and> progress_mirror
         (world_of (saveProgressOffline_all env_ok [(''__proto__'', sample_progress)] world0))
       = Some []
   \<and> getPendingSyncCount
         (world_of (saveProgressOffline_all env_ok [(''__proto__'', sample_progress)] world0))
       = 1"
  by (simp add: corrupt_mirror_world_def world0_def saveProgressOffline_def
        saveProgressLocally_def getSyncQueue_def getPendingSyncCount_def
        assign_property_def progress_mirror_def getAllLocalProgress_def
        addToSyncQueue_def saveSyncQueue_def Let_def)

section \<open>The retry counter\<close>

lemma failing_pass:
  assumes "isOnline w" "getSyncQueue w = [stuck_item]" "progress_mirror w = Some []"
  shows "isOnline (world_of (syncPendingChanges env_failing w))"
    and "getSyncQueue (world_of (syncPendingChanges env_failing w)) = [stuck_item]"
    and "progress_mirror (world_of (syncPendingChanges env_failing w)) = Some []"
    and "remote_calls (world_of (syncPendingChanges env_failing w)) =
           remote_calls w @ [Call_saveProgress (Some ''poem-1'') (Some sample_progress)]"
proof -
  have u: "defined env_failing F_getCurrentUser" "user_at env_failing (steps w) = Some ''u1''"
    by (simp_all add: env_failing_def env_ok_def)
  let ?w2 = "world_of (invoke_remote env_failing
               (Call_saveProgress (Some ''poem-1'') (Some sample_progress)) (tick w))"
  have p: "processSyncItem env_failing stuck_item ''u1'' (tick w) = Throw RemoteError ?w2"
    by (simp add: processSyncItem_def stuck_item_def env_failing_def env_ok_def
          invoke_remote_def Let_def)
  have r0: "retries stuck_item = 0" by (simp add: stuck_item_def)
  have l: "sync_each env_failing ''u1'' [stuck_item] (tick w) = ?w2"
    by (simp add: p Let_def r0)
  have m2: "progress_mirror ?w2 = Some []"
    using assms(3) progress_mirror_cong [of ?w2 w] by simp
  have k: "Object_keys ([] :: (string \<times> progress) list) = []"
    by (simp add: Object_keys_def)
  have s: "syncPendingChanges env_failing w =
             Return () ((tick ?w2)\<lparr>last_sync_store := Some (date_at env_failing (steps ?w2))\<rparr>)"
    by (simp add: syncPendingChanges_online [OF assms(1) u] assms(2) l
          syncLocalProgressToCloud_returns [OF m2] k del: sync_each.simps)
  have q2: "getSyncQueue ((tick ?w2)\<lparr>last_sync_store := Some (date_at env_failing (steps ?w2))\<rparr>)
              = getSyncQueue w"
    by (rule getSyncQueue_cong) simp
  have m3: "progress_mirror ((tick ?w2)\<lparr>last_sync_store := Some (date_at env_failing (steps ?w2))\<rparr>)
              = progress_mirror w"
    by (rule progress_mirror_cong) simp
  show "isOnline (world_of (syncPendingChanges env_failing w))"
    using assms(1) by (simp add: s)
  show "getSyncQueue (world_of (syncPendingChanges env_failing w)) = [stuck_item]"
    unfolding s world_of.simps q2 by (rule assms(2))
  show "progress_mirror (world_of (syncPendingChanges env_failing w)) = Some []"
    unfolding s world_of.simps m3 by (rule assms(3))
  show "remote_calls (world_of (syncPendingChanges env_failing w)) =
           remote_calls w @ [Call_saveProgress (Some ''poem-1'') (Some sample_progress)]"
    by (simp add: s)
qed

lemma failing_passes:
  assumes "isOnline w" "getSyncQueue w = [stuck_item]" "progress_mirror w = Some []"
  shows "getSyncQueue (passes n env_failing w) = [stuck_item]
       \<and> remote_calls (passes n env_failing w) =
           remote_calls w @ replicate n (Call_saveProgress (Some ''poem-1'') (Some sample_progress))"
  using assms
proof (induction n arbitrary: w)
  case 0
  then show ?case by simp
next
  case (Suc n)
  show ?case
    using Suc.IH [OF failing_pass(1-3) [OF Suc.prems]] failing_pass(4) [OF Suc.prems]
    by (simp add: replicate_app_Cons_same)
qed

text \<open>
  C2.  A queued \<open>save_progress\<close> item whose remote call fails at every attempt is still
  in the persisted queue, with retry counter 0, after three reconciliation passes run
  online with a resolving identity, and after a fourth, which makes a fourth call on the
  remote store for it: the counter is incremented on the snapshot and never written back.
\<close>

theorem always_failing_item_is_never_dropped:
  "isOnline stuck_world \<and> retries stuck_item = 0
   \<and> getSyncQueue stuck_world = [stuck_item]
   \<and> getSyncQueue (passes 3 env_failing stuck_world) = [stuck_item]
   \<and> getSyncQueue (passes 4 env_failing stuck_world) = [stuck_item]
   \<and> remote_calls (passes 4 env_failing stuck_world) =
       [Call_saveProgress (Some ''poem-1'') (Some sample_progress),
        Call_saveProgress (Some ''poem-1'') (Some sample_progress),
        Call_saveProgress (Some ''poem-1'') (Some sample_progress),
        Call_saveProgress (Some ''poem-1'') (Some sample_progress)]"
proof -
  have a: "isOnline stuck_world" "getSyncQueue stuck_world = [stuck_item]"
      "progress_mirror stuck_world = Some []" "remote_calls stuck_world = []"
    by (simp_all add: stuck_world_def world0_def getSyncQueue_def progress_mirror_iff)
  show ?thesis
    using failing_passes [OF a(1-3), of 3] failing_passes [OF a(1-3), of 4]
    by (simp add: a stuck_item_def numeral_eq_Suc)
qed


end
